theory Spec2Isabelle
  imports Complex_Main
begin

section \<open>The worker of custom-metrics-lab (src/app/worker/main.go)\<close>

text \<open>
  The worker consumes Pub/Sub messages one at a time, publishes the backlog size carried
  in the message attribute \<open>numJobs\<close> on a Prometheus gauge, simulates work and
  acknowledges. A second goroutine sets the gauge to 0 when no job has arrived for
  \<open>metricTimeout\<close>.

  Conventions of the embedding:
  \<^item> instants are readings of the monotonic clock in nanoseconds (\<open>int\<close>), and
    \<open>time.Since(t)\<close> at the instant \<open>now\<close> is \<open>now - t\<close> (executions stay far below
    the 292 years at which \<open>Time.Sub\<close> saturates);
  \<^item> \<open>time.Duration\<close> is a signed 64-bit count of nanoseconds, and the one place
    where the source multiplies durations has its wrap-around written out;
  \<^item> Go's \<open>int\<close> is 64 bits wide (the lab's images are built for 64-bit platforms);
  \<^item> a \<open>float64\<close> is a finite value, an infinity or NaN; rounding is not modelled;
  \<^item> every \<open>time.Now()\<close> is an explicit argument \<open>now\<close>.
\<close>

subsection \<open>Standard library: strconv\<close>

datatype error = ErrSyntax | ErrRange

definition isDigit :: "char \<Rightarrow> bool" where
  "isDigit c = ((48::nat) \<le> of_char c \<and> of_char c \<le> (57::nat))"

definition digitVal :: "char \<Rightarrow> nat" where
  "digitVal c = of_char c - 48"

definition maxUint64 :: nat where
  "maxUint64 = 2 ^ 64 - 1"

definition maxInt64 :: int where
  "maxInt64 = 2 ^ 63 - 1"

definition minInt64 :: int where
  "minInt64 = - (2 ^ 63)"

text \<open>
  The digit loop of \<open>strconv.ParseUint(s, 10, 64)\<close>. A byte that is not a decimal digit is
  a syntax error with value 0. The accumulator is checked before it is multiplied
  (\<open>n >= cutoff\<close>, with \<open>cutoff = maxUint64/10 + 1\<close>) and after the digit is added
  (\<open>n1 < n || n1 > maxVal\<close>, which for an unsigned 64-bit sum says that the exact sum
  exceeds \<open>maxUint64\<close>); either overflow returns \<open>maxUint64\<close> with a range error at
  once, without looking at the bytes that follow.
\<close>

fun ParseUint_loop :: "nat \<Rightarrow> string \<Rightarrow> nat \<times> error option" where
  "ParseUint_loop n [] = (n, None)"
| "ParseUint_loop n (c # cs) =
     (if \<not> isDigit c then (0, Some ErrSyntax)
      else if n \<ge> maxUint64 div 10 + 1 then (maxUint64, Some ErrRange)
      else if n * 10 + digitVal c > maxUint64 then (maxUint64, Some ErrRange)
      else ParseUint_loop (n * 10 + digitVal c) cs)"

definition ParseUint :: "string \<Rightarrow> nat \<times> error option" where
  "ParseUint s = (if s = [] then (0, Some ErrSyntax) else ParseUint_loop 0 s)"

text \<open>\<open>strconv.ParseInt(s, 10, 0)\<close>: a sign, then \<open>ParseUint\<close>, then the range of \<open>int\<close>.\<close>

definition ParseInt :: "string \<Rightarrow> int \<times> error option" where
  "ParseInt s =
     (if s = [] then (0, Some ErrSyntax)
      else
        let neg = (hd s = CHR ''-'');
            s1 = (if hd s = CHR ''+'' \<or> hd s = CHR ''-'' then tl s else s);
            (un, err) = ParseUint s1
        in if err = Some ErrSyntax then (0, Some ErrSyntax)
           else if \<not> neg \<and> un \<ge> 2 ^ 63 then (maxInt64, Some ErrRange)
           else if neg \<and> un > 2 ^ 63 then (minInt64, Some ErrRange)
           else (if neg then - int un else int un, None))"

text \<open>
  The fast path of \<open>strconv.Atoi\<close> for strings of 1 to 18 bytes: no overflow is possible,
  and a byte \<open>ch\<close> with \<open>ch - '0' > 9\<close> (in byte arithmetic: any byte that is not a
  digit) is a syntax error.
\<close>

fun Atoi_fast_loop :: "int \<Rightarrow> string \<Rightarrow> int option" where
  "Atoi_fast_loop n [] = Some n"
| "Atoi_fast_loop n (ch # cs) =
     (if \<not> isDigit ch then None else Atoi_fast_loop (n * 10 + int (digitVal ch)) cs)"

definition Atoi :: "string \<Rightarrow> int \<times> error option" where
  "Atoi s0 =
     (if 0 < length s0 \<and> length s0 < 19 then
        let signed = (hd s0 = CHR ''-'' \<or> hd s0 = CHR ''+'');
            s = (if signed then tl s0 else s0)
        in if signed \<and> length s < 1 then (0, Some ErrSyntax)
           else (case Atoi_fast_loop 0 s of
                   None \<Rightarrow> (0, Some ErrSyntax)
                 | Some n \<Rightarrow> (if hd s0 = CHR ''-'' then - n else n, None))
      else ParseInt s0)"

subsection \<open>Configuration\<close>

text \<open>The process environment is a map from names to values; \<open>os.LookupEnv\<close> is the lookup.\<close>

definition getEnv :: "(string \<rightharpoonup> string) \<Rightarrow> string \<Rightarrow> string \<Rightarrow> string" where
  "getEnv env key fallback = (case env key of Some v \<Rightarrow> v | None \<Rightarrow> fallback)"

text \<open>The value of a signed 64-bit integer after an arithmetic result wrapped around.\<close>

definition wrap64 :: "int \<Rightarrow> int" where
  "wrap64 x = (x + 2 ^ 63) mod 2 ^ 64 - 2 ^ 63"

definition Second :: int where
  "Second = 1000000000"

text \<open>\<open>time.Duration(sec) * time.Second\<close>, a product of two int64 values.\<close>

definition secondsDuration :: "int \<Rightarrow> int" where
  "secondsDuration sec = wrap64 (sec * Second)"

text \<open>Lines 54 to 58 of \<open>main\<close>: the error of \<open>Atoi\<close> is assigned to the blank identifier.\<close>

definition jobDurationOf :: "(string \<rightharpoonup> string) \<Rightarrow> int" where
  "jobDurationOf env = secondsDuration (fst (Atoi (getEnv env ''JOB_DURATION_SEC'' ''90'')))"

definition metricTimeoutOf :: "(string \<rightharpoonup> string) \<Rightarrow> int" where
  "metricTimeoutOf env = secondsDuration (fst (Atoi (getEnv env ''METRIC_TIMEOUT_SEC'' ''120'')))"

subsection \<open>Values of the gauge and the backlog attribute\<close>

datatype float64 = Fin real | PosInf | NegInf | NaN

text \<open>The comparison \<open>v >= 0\<close> of Go on a \<open>float64\<close>; it is false on NaN.\<close>

fun geZero :: "float64 \<Rightarrow> bool" where
  "geZero (Fin r) = (0 \<le> r)"
| "geZero PosInf = True"
| "geZero NegInf = False"
| "geZero NaN = False"

definition decimal :: "string \<Rightarrow> nat" where
  "decimal ds = foldl (\<lambda>n c. n * 10 + digitVal c) 0 ds"

text \<open>
  \<open>strconv.ParseFloat(s, 64)\<close>. Two classes of input are modelled exactly: the empty
  string, a syntax error; and an optional sign followed by 1 to 15 decimal digits and
  nothing else, which is read as that integer, exactly representable as a \<open>float64\<close>,
  with no error. On every other string (fractions, exponents, hexadecimal floats,
  infinities, NaN, long mantissas, malformed text) the result of the library is the
  parameter \<open>lib\<close>, about which nothing is assumed.
\<close>

definition ParseFloat :: "(string \<Rightarrow> float64 \<times> error option) \<Rightarrow> string \<Rightarrow> float64 \<times> error option" where
  "ParseFloat lib s =
     (if s = [] then (Fin 0, Some ErrSyntax)
      else
        let neg = (hd s = CHR ''-'');
            ds = (if hd s = CHR ''+'' \<or> hd s = CHR ''-'' then tl s else s)
        in if ds \<noteq> [] \<and> length ds \<le> 15 \<and> list_all isDigit ds
           then (Fin (if neg then - real (decimal ds) else real (decimal ds)), None)
           else lib s)"

record message =
  Attributes :: "string \<rightharpoonup> string"

text \<open>Indexing a Go map with a key it does not hold gives the zero value, the empty string.\<close>

definition attribute :: "message \<Rightarrow> string \<Rightarrow> string" where
  "attribute msg key = (case Attributes msg key of Some v \<Rightarrow> v | None \<Rightarrow> [])"

subsection \<open>The metric state and the gauge\<close>

record globalState =
  lastJobTime :: int
  metricValue :: float64
  metricTimeout :: int

text \<open>The process has one \<open>globalState\<close> and one registered gauge, \<open>numJobs\<close>.\<close>

record world = globalState +
  numJobs :: float64

datatype logline =
    Received
  | WarnNumJobs error
  | SetMetric float64
  | StartingWork int
  | WorkFinished
  | NoJobsInTimeout

definition Gauge_Set :: "float64 \<Rightarrow> world \<Rightarrow> world" where
  "Gauge_Set v w = w\<lparr>numJobs := v\<rparr>"

text \<open>What the handler of \<open>/metrics\<close> renders: the value of the gauge.\<close>

definition ReadCurrent :: "world \<Rightarrow> float64" where
  "ReadCurrent w = numJobs w"

text \<open>\<open>updateMetric\<close>, lines 147 to 150: the critical section under \<open>s.mu.Lock()\<close>.\<close>

definition updateMetric_locked :: "int \<Rightarrow> float64 \<Rightarrow> world \<Rightarrow> world" where
  "updateMetric_locked now v w = w\<lparr>lastJobTime := now, metricValue := v\<rparr>"

definition updateMetric :: "int \<Rightarrow> float64 \<Rightarrow> world \<Rightarrow> world" where
  "updateMetric now v w = Gauge_Set v (updateMetric_locked now v w)"

text \<open>
  One iteration of the loop of \<open>metricUpdater\<close>: the two fields are read under
  \<open>s.mu.RLock()\<close> (lines 162 to 165); the comparison and the write to the gauge follow
  after the lock is released (lines 167 to 170), at the instant \<open>now\<close>.
\<close>

definition metricUpdater_read :: "world \<Rightarrow> int \<times> int" where
  "metricUpdater_read w = (lastJobTime w, metricTimeout w)"

definition metricUpdater_check :: "int \<Rightarrow> int \<times> int \<Rightarrow> world \<Rightarrow> world \<times> logline list" where
  "metricUpdater_check now sampled w =
     (case sampled of (lastJob, timeout) \<Rightarrow>
        if now - lastJob > timeout then (Gauge_Set (Fin 0) w, [NoJobsInTimeout]) else (w, []))"

definition metricUpdater_tick :: "int \<Rightarrow> world \<Rightarrow> world \<times> logline list" where
  "metricUpdater_tick now w = metricUpdater_check now (metricUpdater_read w) w"

text \<open>\<open>for range ticker.C\<close>, over the instants at which the ticker fires.\<close>

fun metricUpdater :: "int list \<Rightarrow> world \<Rightarrow> world \<times> logline list" where
  "metricUpdater [] w = (w, [])"
| "metricUpdater (now # ticks) w =
     (case metricUpdater_tick now w of (w1, l1) \<Rightarrow>
        case metricUpdater ticks w1 of (w2, l2) \<Rightarrow> (w2, l1 @ l2))"

text \<open>The state that \<open>main\<close> builds at the instant \<open>now\<close>; a new gauge holds 0.\<close>

definition initialWorld :: "(string \<rightharpoonup> string) \<Rightarrow> int \<Rightarrow> world" where
  "initialWorld env now =
     \<lparr>lastJobTime = now, metricValue = Fin 0, metricTimeout = metricTimeoutOf env,
      numJobs = Fin 0\<rparr>"

subsection \<open>The consumer\<close>

definition Millisecond :: int where
  "Millisecond = 1000000"

text \<open>
  \<open>simulateWork\<close>: while \<open>time.Since(startTime) < duration\<close>, a burst of computation and a
  sleep of 50 ms. The time the \<open>i\<close>-th burst takes (and by which the sleep overruns) is
  \<open>busy i\<close> nanoseconds. The function returns the instant at which the loop is left.
\<close>

function simulateWork_loop :: "(nat \<Rightarrow> nat) \<Rightarrow> nat \<Rightarrow> int \<Rightarrow> int \<Rightarrow> int \<Rightarrow> int" where
  "simulateWork_loop busy i startTime duration now =
     (if now - startTime < duration
      then simulateWork_loop busy (Suc i) startTime duration (now + int (busy i) + 50 * Millisecond)
      else now)"
  by pat_completeness auto
termination
  by (relation "measure (\<lambda>(busy, i, startTime, duration, now). nat (duration - (now - startTime)))")
     (auto simp: Millisecond_def)

definition simulateWork :: "(nat \<Rightarrow> nat) \<Rightarrow> int \<Rightarrow> int \<Rightarrow> int" where
  "simulateWork busy duration now = simulateWork_loop busy 0 now duration now"

datatype event =
    Log logline
  | UpdateMetric int float64
  | Work int int
  | Ack int

text \<open>Lines 104 to 109: the attribute, its parse, and the default on any error.\<close>

definition jobValOf :: "(string \<Rightarrow> float64 \<times> error option) \<Rightarrow> message \<Rightarrow> float64 \<times> error option" where
  "jobValOf lib msg =
     (case ParseFloat lib (attribute msg ''numJobs'') of
        (jobVal, err) \<Rightarrow> (if err \<noteq> None then Fin 1 else jobVal, err))"

text \<open>
  The callback handed to \<open>sub.Receive\<close> runs its statements one after the other on
  the state of the process, the clock, and the record of what it has done so far (log
  lines, the call of \<open>updateMetric\<close>, the work with the instants at which it began and
  ended, \<open>msg.Ack()\<close>). \<open>updateMetric\<close> reads the clock when it is called. Time
  passes in \<open>simulateWork\<close> only.
\<close>

record proc =
  pworld :: world
  clock :: int
  trace :: "event list"

definition logPrint :: "logline \<Rightarrow> proc \<Rightarrow> proc" where
  "logPrint l p = p\<lparr>trace := trace p @ [Log l]\<rparr>"

definition call_updateMetric :: "float64 \<Rightarrow> proc \<Rightarrow> proc" where
  "call_updateMetric v p =
     p\<lparr>pworld := updateMetric (clock p) v (pworld p),
       trace := trace p @ [UpdateMetric (clock p) v]\<rparr>"

definition call_simulateWork :: "(nat \<Rightarrow> nat) \<Rightarrow> int \<Rightarrow> proc \<Rightarrow> proc" where
  "call_simulateWork busy duration p =
     p\<lparr>clock := simulateWork busy duration (clock p),
       trace := trace p @ [Work (clock p) (simulateWork busy duration (clock p))]\<rparr>"

definition call_Ack :: "proc \<Rightarrow> proc" where
  "call_Ack p = p\<lparr>trace := trace p @ [Ack (clock p)]\<rparr>"

text \<open>Lines 101 to 116: from the entry of the callback to the line before the work.\<close>

definition callback_ingest ::
  "(string \<Rightarrow> float64 \<times> error option) \<Rightarrow> int \<Rightarrow> message \<Rightarrow> proc \<Rightarrow> proc" where
  "callback_ingest lib jobDuration msg p =
     (case jobValOf lib msg of (jobVal, err) \<Rightarrow>
        let p1 = logPrint Received p;
            p2 = (case err of Some e \<Rightarrow> logPrint (WarnNumJobs e) p1 | None \<Rightarrow> p1);
            p3 = call_updateMetric jobVal p2;
            p4 = logPrint (SetMetric jobVal) p3
        in logPrint (StartingWork jobDuration) p4)"

text \<open>Lines 117 to 123: the work, and the acknowledgement after it.\<close>

definition callback_work :: "(nat \<Rightarrow> nat) \<Rightarrow> int \<Rightarrow> proc \<Rightarrow> proc" where
  "callback_work busy jobDuration p =
     (let p1 = call_simulateWork busy jobDuration p;
          p2 = logPrint WorkFinished p1
      in call_Ack p2)"

definition entering :: "world \<Rightarrow> int \<Rightarrow> proc" where
  "entering w now = \<lparr>pworld = w, clock = now, trace = []\<rparr>"

text \<open>
  The callback, entered at the instant \<open>now\<close> with the configured \<open>jobDuration\<close>. It
  returns the new state, what it did in order, and the instant at which it returns.
\<close>

definition callback ::
  "(string \<Rightarrow> float64 \<times> error option) \<Rightarrow> int \<Rightarrow> (nat \<Rightarrow> nat) \<Rightarrow> message \<Rightarrow> int \<Rightarrow> world
     \<Rightarrow> world \<times> event list \<times> int" where
  "callback lib jobDuration busy msg now w =
     (let p = callback_work busy jobDuration (callback_ingest lib jobDuration msg (entering w now))
      in (pworld p, trace p, clock p))"

text \<open>
  A sequential run of the process: messages delivered to the callback and ticks of the
  decay loop, each taken as one step, in the order in which they touch the state.
\<close>

datatype step = Deliver message "nat \<Rightarrow> nat" int | Tick int

fun exec :: "(string \<Rightarrow> float64 \<times> error option) \<Rightarrow> int \<Rightarrow> step list \<Rightarrow> world \<Rightarrow> world" where
  "exec lib jobDuration [] w = w"
| "exec lib jobDuration (Deliver msg busy now # rest) w =
     exec lib jobDuration rest (fst (callback lib jobDuration busy msg now w))"
| "exec lib jobDuration (Tick now # rest) w =
     exec lib jobDuration rest (fst (metricUpdater_tick now w))"

subsection \<open>The two writers as interleaved atomic steps\<close>

text \<open>
  The consumer and the decay loop are two goroutines. Each has two atomic steps: the
  critical section under the mutex, and the call of \<open>numJobs.Set\<close> that follows it
  outside the mutex. Between the two steps a goroutine remembers a local value: the decay
  loop the fields it sampled, the consumer the value it is about to publish.
\<close>

record sys =
  shared :: world
  sampled :: "(int \<times> int) option"
  publishing :: "float64 option"

datatype act =
    DecayRead
  | DecayCheck int
  | IngestLocked int float64
  | IngestSet

fun cstep :: "act \<Rightarrow> sys \<Rightarrow> sys option" where
  "cstep DecayRead s =
     (case sampled s of
        None \<Rightarrow> Some (s\<lparr>sampled := Some (metricUpdater_read (shared s))\<rparr>)
      | Some _ \<Rightarrow> None)"
| "cstep (DecayCheck now) s =
     (case sampled s of
        None \<Rightarrow> None
      | Some lt \<Rightarrow> Some (s\<lparr>shared := fst (metricUpdater_check now lt (shared s)), sampled := None\<rparr>))"
| "cstep (IngestLocked now v) s =
     (case publishing s of
        None \<Rightarrow> Some (s\<lparr>shared := updateMetric_locked now v (shared s), publishing := Some v\<rparr>)
      | Some _ \<Rightarrow> None)"
| "cstep IngestSet s =
     (case publishing s of
        None \<Rightarrow> None
      | Some v \<Rightarrow> Some (s\<lparr>shared := Gauge_Set v (shared s), publishing := None\<rparr>))"

fun crun :: "act list \<Rightarrow> sys \<Rightarrow> sys option" where
  "crun [] s = Some s"
| "crun (a # as) s = (case cstep a s of None \<Rightarrow> None | Some s1 \<Rightarrow> crun as s1)"

definition idle :: "world \<Rightarrow> sys" where
  "idle w = \<lparr>shared = w, sampled = None, publishing = None\<rparr>"

subsection \<open>Example inputs\<close>

text \<open>A process started at instant 0 with the default configuration, after one job that
  reported a backlog of 9.\<close>

definition busyWorld :: world where
  "busyWorld = updateMetric 0 (Fin 9) (initialWorld Map.empty 0)"

text \<open>The same process after the tick of the decay loop at 121 s.\<close>

definition decayedWorld :: world where
  "decayedWorld = fst (metricUpdater_tick (121 * Second) busyWorld)"

definition nineJobs :: message where
  "nineJobs = \<lparr>Attributes = [''numJobs'' \<mapsto> ''9'']\<rparr>"

definition negativeJob :: message where
  "negativeJob = \<lparr>Attributes = [''numJobs'' \<mapsto> ''-5'']\<rparr>"

definition bareJob :: message where
  "bareJob = \<lparr>Attributes = Map.empty\<rparr>"

text \<open>A stand-in for the library on the strings that \<open>ParseFloat\<close> leaves to it: it
  rejects them all. None of the examples reaches it.\<close>

definition rejecting :: "string \<Rightarrow> float64 \<times> error option" where
  "rejecting s = (Fin 0, Some ErrSyntax)"

definition noBusy :: "nat \<Rightarrow> nat" where
  "noBusy i = 0"

definition overflowEnv :: "string \<rightharpoonup> string" where
  "overflowEnv = [''METRIC_TIMEOUT_SEC'' \<mapsto> ''99999999999999999999x'']"

text \<open>The decay loop samples the state at 121 s, a job reporting 4 arrives and is
  published, and only then does the decay loop compare and write.\<close>

definition raceTrace :: "act list" where
  "raceTrace =
     [DecayRead, IngestLocked (121 * Second) (Fin 4), IngestSet, DecayCheck (121 * Second)]"

text \<open>The same four steps with the job first and the tick after it.\<close>

definition orderedTrace :: "act list" where
  "orderedTrace =
     [IngestLocked (121 * Second) (Fin 4), IngestSet, DecayRead, DecayCheck (121 * Second)]"

definition typoEnv :: "string \<rightharpoonup> string" where
  "typoEnv = [''METRIC_TIMEOUT_SEC'' \<mapsto> ''2m'']"

text \<open>Nineteen nines, more than the largest \<open>int\<close> and less than \<open>maxUint64\<close>, and a letter.\<close>

definition nearOverflowEnv :: "string \<rightharpoonup> string" where
  "nearOverflowEnv = [''METRIC_TIMEOUT_SEC'' \<mapsto> ''9999999999999999999x'']"

definition isLog :: "event \<Rightarrow> bool" where
  "isLog e = (case e of Log _ \<Rightarrow> True | _ \<Rightarrow> False)"

text \<open>A step of a run ingests a value that is at least 0.\<close>

definition ingestsGeZero :: "(string \<Rightarrow> float64 \<times> error option) \<Rightarrow> step \<Rightarrow> bool" where
  "ingestsGeZero lib st = (case st of Deliver msg _ _ \<Rightarrow> geZero (fst (jobValOf lib msg)) | Tick _ \<Rightarrow> True)"

text \<open>The decay loop samples, a job reporting \<open>v\<close> is ingested and published at
  \<open>now\<close>, and the decay loop compares and writes at the same instant.\<close>

definition lateCheck :: "int \<Rightarrow> float64 \<Rightarrow> act list" where
  "lateCheck now v = [DecayRead, IngestLocked now v, IngestSet, DecayCheck now]"

subsection \<open>The strings on which Atoi fails\<close>

definition decimalFrom :: "nat \<Rightarrow> string \<Rightarrow> nat" where
  "decimalFrom n ds = foldl (\<lambda>n c. n * 10 + digitVal c) n ds"

text \<open>The string without its leading sign, if it has one.\<close>

definition signless :: "string \<Rightarrow> string" where
  "signless s = (if s \<noteq> [] \<and> (hd s = CHR ''+'' \<or> hd s = CHR ''-'') then tl s else s)"

text \<open>The digits at the start of the string, after the sign, are a number above
  \<open>maxUint64\<close>; what follows them does not matter.\<close>

definition digitsOverflow :: "string \<Rightarrow> bool" where
  "digitsOverflow s = (decimalFrom 0 (takeWhile isDigit (signless s)) > maxUint64)"

text \<open>The string is a sign and digits, a well-formed number, outside the range of \<open>int\<close>.\<close>

definition outsideInt :: "string \<Rightarrow> bool" where
  "outsideInt s =
     (signless s \<noteq> [] \<and> list_all isDigit (signless s) \<and>
      (if hd s = CHR ''-'' then decimalFrom 0 (signless s) > 2 ^ 63
       else decimalFrom 0 (signless s) \<ge> 2 ^ 63))"

section \<open>Properties\<close>

subsection \<open>Auxiliary facts\<close>

lemma ParseUint_loop_syntax: "snd (ParseUint_loop n s) = Some ErrSyntax \<Longrightarrow> fst (ParseUint_loop n s) = 0"
  by (induction n s rule: ParseUint_loop.induct) (auto split: if_splits)

lemma Atoi_syntax_zero: "snd (Atoi s) = Some ErrSyntax \<Longrightarrow> fst (Atoi s) = 0"
  by (auto simp: Atoi_def ParseInt_def Let_def split: if_splits option.splits prod.splits)

lemma Atoi_range_value:
  "snd (Atoi s) = Some ErrRange \<Longrightarrow> fst (Atoi s) = (if hd s = CHR ''-'' then minInt64 else maxInt64)"
  by (auto simp: Atoi_def ParseInt_def Let_def split: if_splits option.splits prod.splits)

lemma secondsDuration_zero: "secondsDuration 0 = 0"
  by (simp add: secondsDuration_def wrap64_def)

lemma secondsDuration_maxInt64: "secondsDuration maxInt64 = - Second"
  by (simp add: secondsDuration_def wrap64_def Second_def maxInt64_def)

lemma secondsDuration_minInt64: "secondsDuration minInt64 = 0"
  by (simp add: secondsDuration_def wrap64_def Second_def minInt64_def)

lemma Atoi_90: "Atoi ''90'' = (90, None)"
  by (simp add: Atoi_def isDigit_def digitVal_def)

lemma Atoi_120: "Atoi ''120'' = (120, None)"
  by (simp add: Atoi_def isDigit_def digitVal_def)

lemma tick_cases:
  "metricUpdater_tick now w =
     (if now - lastJobTime w > metricTimeout w then (w\<lparr>numJobs := Fin 0\<rparr>, [NoJobsInTimeout]) else (w, []))"
  by (simp add: metricUpdater_tick_def metricUpdater_check_def metricUpdater_read_def Gauge_Set_def)

lemma tick_frame:
  "lastJobTime (fst (metricUpdater_tick now w)) = lastJobTime w"
  "metricValue (fst (metricUpdater_tick now w)) = metricValue w"
  "metricTimeout (fst (metricUpdater_tick now w)) = metricTimeout w"
  by (simp_all add: tick_cases)

lemma tick_at_zero: "numJobs w = Fin 0 \<Longrightarrow> fst (metricUpdater_tick now w) = w"
  by (simp add: tick_cases)

lemma metricUpdater_Cons_fst:
  "fst (metricUpdater (t # ticks) w) = fst (metricUpdater ticks (fst (metricUpdater_tick t w)))"
  by (simp split: prod.splits)

lemma metricUpdater_Cons_snd:
  "snd (metricUpdater (t # ticks) w) =
     snd (metricUpdater_tick t w) @ snd (metricUpdater ticks (fst (metricUpdater_tick t w)))"
  by (simp split: prod.splits)

lemma metricUpdater_frame:
  "lastJobTime (fst (metricUpdater ticks w)) = lastJobTime w \<and>
   metricValue (fst (metricUpdater ticks w)) = metricValue w \<and>
   metricTimeout (fst (metricUpdater ticks w)) = metricTimeout w"
proof (induction ticks arbitrary: w)
  case Nil
  show ?case by simp
next
  case (Cons t ticks)
  show ?case
    unfolding metricUpdater_Cons_fst using Cons.IH [of "fst (metricUpdater_tick t w)"]
    by (simp add: tick_frame)
qed

lemma metricUpdater_at_zero: "numJobs w = Fin 0 \<Longrightarrow> fst (metricUpdater ticks w) = w"
proof (induction ticks)
  case Nil
  show ?case by simp
next
  case (Cons t ticks)
  then show ?case
    unfolding metricUpdater_Cons_fst by (simp add: tick_at_zero)
qed

lemma metricUpdater_fresh:
  "\<forall>t \<in> set ticks. t - lastJobTime w \<le> metricTimeout w \<Longrightarrow> metricUpdater ticks w = (w, [])"
  by (induction ticks) (simp_all add: tick_cases)

lemma metricUpdater_logs:
  "snd (metricUpdater ticks w) =
     map (\<lambda>t. NoJobsInTimeout) (filter (\<lambda>t. t - lastJobTime w > metricTimeout w) ticks)"
proof (induction ticks arbitrary: w)
  case Nil
  show ?case by simp
next
  case (Cons t ticks)
  show ?case
    unfolding metricUpdater_Cons_snd using Cons.IH [of "fst (metricUpdater_tick t w)"]
    by (simp add: tick_frame) (simp add: tick_cases)
qed

lemma simulateWork_loop_bounds:
  "now \<le> simulateWork_loop busy i startTime duration now \<and>
   duration \<le> simulateWork_loop busy i startTime duration now - startTime"
proof (induction busy i startTime duration now rule: simulateWork_loop.induct)
  case (1 busy i startTime duration now)
  show ?case
  proof (cases "now - startTime < duration")
    case True
    with "1.IH" show ?thesis by (simp add: Millisecond_def)
  next
    case False
    then show ?thesis by simp
  qed
qed

lemma simulateWork_loop_upper:
  "\<forall>i. busy i \<le> b \<Longrightarrow>
   simulateWork_loop busy i startTime duration now \<le> max now (startTime + duration + int b + 50 * Millisecond - 1)"
proof (induction busy i startTime duration now rule: simulateWork_loop.induct)
  case (1 busy i startTime duration now)
  show ?case
  proof (cases "now - startTime < duration")
    case True
    have "int (busy i) \<le> int b" using "1.prems" by simp
    with True "1.IH" [OF True "1.prems"] show ?thesis by (simp add: Millisecond_def)
  next
    case False
    then show ?thesis by simp
  qed
qed


lemma default_metricTimeout: "metricTimeoutOf Map.empty = 120 * Second"
  by (simp add: metricTimeoutOf_def getEnv_def Atoi_120 secondsDuration_def wrap64_def Second_def)

lemma busyWorld_eq:
  "busyWorld = \<lparr>lastJobTime = 0, metricValue = Fin 9, metricTimeout = 120 * Second, numJobs = Fin 9\<rparr>"
  by (simp add: busyWorld_def initialWorld_def updateMetric_def updateMetric_locked_def Gauge_Set_def
      default_metricTimeout)

lemma decayedWorld_eq:
  "decayedWorld = \<lparr>lastJobTime = 0, metricValue = Fin 9, metricTimeout = 120 * Second, numJobs = Fin 0\<rparr>"
  by (simp add: decayedWorld_def busyWorld_eq tick_cases Second_def)

lemma updateMetric_eq:
  "updateMetric now v w = w\<lparr>lastJobTime := now, metricValue := v, numJobs := v\<rparr>"
  by (simp add: updateMetric_def updateMetric_locked_def Gauge_Set_def)

lemma callback_world:
  "fst (callback lib jobDuration busy msg now w) = updateMetric now (fst (jobValOf lib msg)) w"
  by (cases "jobValOf lib msg")
     (simp add: callback_def callback_work_def callback_ingest_def entering_def logPrint_def
        call_updateMetric_def call_simulateWork_def call_Ack_def Let_def split: option.splits)

lemma callback_events:
  "fst (snd (callback lib jobDuration busy msg now w)) =
     [Log Received]
     @ (case snd (jobValOf lib msg) of Some e \<Rightarrow> [Log (WarnNumJobs e)] | None \<Rightarrow> [])
     @ [UpdateMetric now (fst (jobValOf lib msg)), Log (SetMetric (fst (jobValOf lib msg))),
        Log (StartingWork jobDuration), Work now (simulateWork busy jobDuration now),
        Log WorkFinished, Ack (simulateWork busy jobDuration now)]"
  by (cases "jobValOf lib msg")
     (simp add: callback_def callback_work_def callback_ingest_def entering_def logPrint_def
        call_updateMetric_def call_simulateWork_def call_Ack_def Let_def split: option.splits)

lemma callback_returns:
  "snd (snd (callback lib jobDuration busy msg now w)) = simulateWork busy jobDuration now"
  by (cases "jobValOf lib msg")
     (simp add: callback_def callback_work_def callback_ingest_def entering_def logPrint_def
        call_updateMetric_def call_simulateWork_def call_Ack_def Let_def split: option.splits)

lemma jobValOf_error:
  "snd (ParseFloat lib (attribute msg ''numJobs'')) = Some e \<Longrightarrow> jobValOf lib msg = (Fin 1, Some e)"
  by (cases "ParseFloat lib (attribute msg ''numJobs'')") (simp add: jobValOf_def)

lemma jobValOf_parsed:
  "snd (ParseFloat lib (attribute msg ''numJobs'')) = None \<Longrightarrow>
   jobValOf lib msg = (fst (ParseFloat lib (attribute msg ''numJobs'')), None)"
  by (cases "ParseFloat lib (attribute msg ''numJobs'')") (simp add: jobValOf_def)

lemma ParseFloat_empty: "ParseFloat lib [] = (Fin 0, Some ErrSyntax)"
  by (simp add: ParseFloat_def)

lemma ParseFloat_minus5: "ParseFloat lib ''-5'' = (Fin (- 5), None)"
  by (simp add: ParseFloat_def isDigit_def digitVal_def decimal_def)

lemma ParseFloat_9: "ParseFloat lib ''9'' = (Fin 9, None)"
  by (simp add: ParseFloat_def isDigit_def digitVal_def decimal_def)

lemma simulateWork_two_rounds: "simulateWork noBusy (100 * Millisecond) 0 = 100 * Millisecond"
  by (simp add: simulateWork_def noBusy_def Millisecond_def)

lemma absent_attribute:
  "Attributes msg ''numJobs'' = None \<Longrightarrow>
   snd (ParseFloat lib (attribute msg ''numJobs'')) = Some ErrSyntax"
  by (simp add: attribute_def ParseFloat_empty)

lemma callback_default:
  assumes "jobValOf lib msg = (Fin 1, Some e)"
  shows "callback lib jobDuration busy msg now w =
     (updateMetric now (Fin 1) w,
      [Log Received, Log (WarnNumJobs e), UpdateMetric now (Fin 1), Log (SetMetric (Fin 1)),
       Log (StartingWork jobDuration), Work now (simulateWork busy jobDuration now),
       Log WorkFinished, Ack (simulateWork busy jobDuration now)],
      simulateWork busy jobDuration now)"
  using assms
  by (simp add: callback_def callback_work_def callback_ingest_def entering_def logPrint_def
      call_updateMetric_def call_simulateWork_def call_Ack_def Let_def)

lemma exec_metricValue:
  "geZero (metricValue w) \<Longrightarrow> \<forall>st \<in> set steps. ingestsGeZero lib st \<Longrightarrow>
   geZero (metricValue (exec lib jobDuration steps w))"
proof (induction steps arbitrary: w)
  case Nil
  then show ?case by simp
next
  case (Cons st steps)
  show ?case
  proof (cases st)
    case (Deliver msg busy now)
    with Cons.prems have "geZero (fst (jobValOf lib msg))" by (simp add: ingestsGeZero_def)
    then have "geZero (metricValue (fst (callback lib jobDuration busy msg now w)))"
      by (simp add: callback_world updateMetric_eq)
    with Cons.IH Cons.prems Deliver show ?thesis by simp
  next
    case (Tick now)
    from Cons.prems have "geZero (metricValue (fst (metricUpdater_tick now w)))"
      by (simp add: tick_frame)
    with Cons.IH Cons.prems Tick show ?thesis by simp
  qed
qed

lemma sequential_ingest:
  "crun [IngestLocked now v, IngestSet] (idle w) = Some (idle (updateMetric now v w))"
  by (simp add: idle_def updateMetric_def)

lemma sequential_tick:
  "crun [DecayRead, DecayCheck now] (idle w) = Some (idle (fst (metricUpdater_tick now w)))"
  by (simp add: idle_def metricUpdater_tick_def)

lemma Atoi_error_duration:
  assumes "snd (Atoi s) = Some e"
  shows "secondsDuration (fst (Atoi s)) = (if e = ErrRange \<and> hd s \<noteq> CHR ''-'' then - Second else 0)"
proof (cases e)
  case ErrSyntax
  with assms Atoi_syntax_zero [of s] show ?thesis by (simp add: secondsDuration_zero)
next
  case ErrRange
  with assms Atoi_range_value [of s] show ?thesis
    by (simp add: secondsDuration_maxInt64 secondsDuration_minInt64)
qed

lemma Atoi_typo: "Atoi ''2m'' = (0, Some ErrSyntax)"
  by (simp add: Atoi_def isDigit_def digitVal_def)

lemma Atoi_overflow: "Atoi ''99999999999999999999x'' = (maxInt64, Some ErrRange)"
  by (simp add: Atoi_def ParseInt_def ParseUint_def isDigit_def digitVal_def maxUint64_def maxInt64_def)

lemma decimalFrom_Cons: "decimalFrom n (c # cs) = decimalFrom (n * 10 + digitVal c) cs"
  by (simp add: decimalFrom_def)

lemma decimalFrom_Nil: "decimalFrom n [] = n"
  by (simp add: decimalFrom_def)

lemma decimalFrom_ge: "n \<le> decimalFrom n ds"
proof (induction ds arbitrary: n)
  case Nil
  show ?case by (simp add: decimalFrom_Nil)
next
  case (Cons c cs)
  have "n \<le> n * 10 + digitVal c" by simp
  also have "\<dots> \<le> decimalFrom (n * 10 + digitVal c) cs" by (rule Cons.IH)
  finally show ?case by (simp add: decimalFrom_Cons)
qed

lemma decimalFrom_bound:
  "list_all isDigit ds \<Longrightarrow> decimalFrom n ds < (n + 1) * 10 ^ length ds"
proof (induction ds arbitrary: n)
  case Nil
  show ?case by (simp add: decimalFrom_Nil)
next
  case (Cons c cs)
  from Cons.prems have d: "digitVal c \<le> 9" by (auto simp: isDigit_def digitVal_def)
  from Cons.prems have "list_all isDigit cs" by simp
  then have "decimalFrom (n * 10 + digitVal c) cs < (n * 10 + digitVal c + 1) * 10 ^ length cs"
    by (rule Cons.IH)
  also have "\<dots> \<le> (n * 10 + 10) * 10 ^ length cs"
    using d by (intro mult_right_mono) simp_all
  also have "\<dots> = (n + 1) * 10 ^ length (c # cs)" by (simp add: algebra_simps)
  finally show ?case by (simp add: decimalFrom_Cons)
qed

lemma ParseUint_loop_kind:
  "n \<le> maxUint64 \<Longrightarrow>
   ParseUint_loop n s =
     (if decimalFrom n (takeWhile isDigit s) > maxUint64 then (maxUint64, Some ErrRange)
      else if \<not> list_all isDigit s then (0, Some ErrSyntax)
      else (decimalFrom n s, None))"
proof (induction s arbitrary: n)
  case Nil
  then show ?case by (simp add: decimalFrom_Nil)
next
  case (Cons c cs)
  show ?case
  proof (cases "isDigit c")
    case False
    with Cons.prems show ?thesis by (simp add: decimalFrom_Nil)
  next
    case True
    show ?thesis
    proof (cases "n * 10 + digitVal c > maxUint64")
      case over: True
      have "n * 10 + digitVal c \<le> decimalFrom (n * 10 + digitVal c) (takeWhile isDigit cs)"
        by (rule decimalFrom_ge)
      with over have "decimalFrom n (takeWhile isDigit (c # cs)) > maxUint64"
        using True by (simp add: decimalFrom_Cons)
      with True over show ?thesis by simp
    next
      case fits: False
      then have small: "\<not> n \<ge> maxUint64 div 10 + 1" by (simp add: maxUint64_def)
      from fits have "n * 10 + digitVal c \<le> maxUint64" by simp
      from Cons.IH [OF this] True fits small show ?thesis
        by (simp add: decimalFrom_Cons)
    qed
  qed
qed

lemma Atoi_fast_loop_kind:
  "0 \<le> n \<Longrightarrow>
   Atoi_fast_loop n s = (if list_all isDigit s then Some (int (decimalFrom (nat n) s)) else None)"
proof (induction s arbitrary: n)
  case Nil
  then show ?case by (simp add: decimalFrom_Nil)
next
  case (Cons c cs)
  have "nat (n * 10 + int (digitVal c)) = nat n * 10 + digitVal c"
    using Cons.prems by (simp add: nat_add_distrib nat_mult_distrib)
  moreover have "0 \<le> n * 10 + int (digitVal c)" using Cons.prems by simp
  ultimately show ?case using Cons.IH [of "n * 10 + int (digitVal c)"]
    by (simp add: decimalFrom_Cons)
qed

lemma short_digits_small:
  assumes "length ds \<le> 18"
  shows "decimalFrom 0 (takeWhile isDigit ds) < 10 ^ 18"
proof -
  have all: "list_all isDigit (takeWhile isDigit ds)"
    by (simp add: list_all_iff) (meson set_takeWhileD)
  have "length (takeWhile isDigit ds) \<le> 18"
    using assms length_takeWhile_le [of isDigit ds] by simp
  then have "(10::nat) ^ length (takeWhile isDigit ds) \<le> 10 ^ 18"
    by (intro power_increasing) simp_all
  with decimalFrom_bound [OF all, of 0] show ?thesis by simp
qed

lemma takeWhile_all: "list_all isDigit ds \<Longrightarrow> takeWhile isDigit ds = ds"
  by (simp add: list_all_iff)

lemma Atoi_error_kind:
  "snd (Atoi s) =
     (if digitsOverflow s \<or> outsideInt s then Some ErrRange
      else if signless s = [] \<or> \<not> list_all isDigit (signless s) then Some ErrSyntax
      else None)"
proof (cases "0 < length s \<and> length s < 19")
  case True
  then have ne: "s \<noteq> []" by auto
  have len: "length (signless s) \<le> 18" using True by (auto simp: signless_def)
  from short_digits_small [OF len] have no_over: "\<not> digitsOverflow s"
    by (simp add: digitsOverflow_def maxUint64_def)
  have no_out: "\<not> outsideInt s"
  proof
    assume out: "outsideInt s"
    then have "takeWhile isDigit (signless s) = signless s"
      by (simp add: outsideInt_def takeWhile_all)
    with short_digits_small [OF len] have "decimalFrom 0 (signless s) < 10 ^ 18" by simp
    with out show False by (simp add: outsideInt_def split: if_splits)
  qed
  have fast: "Atoi_fast_loop 0 (signless s) =
      (if list_all isDigit (signless s) then Some (int (decimalFrom 0 (signless s))) else None)"
    using Atoi_fast_loop_kind [of 0 "signless s"] by simp
  have body: "(if hd s = CHR ''-'' \<or> hd s = CHR ''+'' then tl s else s) = signless s"
    using ne by (auto simp: signless_def)
  have unsigned: "\<not> (hd s = CHR ''-'' \<or> hd s = CHR ''+'') \<Longrightarrow> signless s \<noteq> []"
    using ne by (auto simp: signless_def)
  show ?thesis
    using True no_over no_out unsigned
    by (auto simp: Atoi_def Let_def body fast)
next
  case False
  then have slow: "Atoi s = ParseInt s" by (auto simp: Atoi_def)
  show ?thesis
  proof (cases "s = []")
    case True
    then show ?thesis
      using slow
      by (simp add: ParseInt_def signless_def digitsOverflow_def outsideInt_def
          decimalFrom_Nil)
  next
    case ne: False
    have body: "(if hd s = CHR ''+'' \<or> hd s = CHR ''-'' then tl s else s) = signless s"
      using ne by (simp add: signless_def)
    show ?thesis
    proof (cases "signless s = []")
      case True
      then show ?thesis
        using ne
        by (simp add: slow ParseInt_def body ParseUint_def digitsOverflow_def outsideInt_def
            decimalFrom_Nil Let_def)
    next
      case False
      have pu: "ParseUint (signless s) =
        (if digitsOverflow s then (maxUint64, Some ErrRange)
         else if \<not> list_all isDigit (signless s) then (0, Some ErrSyntax)
         else (decimalFrom 0 (signless s), None))"
        using False ParseUint_loop_kind [of 0 "signless s"]
        by (simp add: ParseUint_def digitsOverflow_def)
      show ?thesis
      proof (cases "digitsOverflow s")
        case True
        then show ?thesis
          using ne by (simp add: slow ParseInt_def body pu maxUint64_def Let_def)
      next
        case no_over: False
        show ?thesis
        proof (cases "list_all isDigit (signless s)")
          case True
          then show ?thesis
            using ne False no_over
            by (auto simp: slow ParseInt_def body pu outsideInt_def Let_def)
        next
          case False
          then show ?thesis
            using ne no_over by (simp add: slow ParseInt_def body pu outsideInt_def Let_def)
        qed
      qed
    qed
  qed
qed

lemma Atoi_near_overflow: "Atoi ''9999999999999999999x'' = (0, Some ErrSyntax)"
  by (simp add: Atoi_def ParseInt_def ParseUint_def isDigit_def digitVal_def maxUint64_def)

lemma callback_ingest_eq:
  "callback_ingest lib jobDuration msg (entering w now) =
     \<lparr>pworld = updateMetric now (fst (jobValOf lib msg)) w,
      clock = now,
      trace = [Log Received]
        @ (case snd (jobValOf lib msg) of Some e \<Rightarrow> [Log (WarnNumJobs e)] | None \<Rightarrow> [])
        @ [UpdateMetric now (fst (jobValOf lib msg)), Log (SetMetric (fst (jobValOf lib msg))),
           Log (StartingWork jobDuration)]\<rparr>"
  by (cases "jobValOf lib msg")
     (simp add: callback_ingest_def entering_def logPrint_def call_updateMetric_def Let_def
        split: option.splits)

lemma callback_work_eq:
  "callback_work busy jobDuration p =
     p\<lparr>clock := simulateWork busy jobDuration (clock p),
       trace := trace p @ [Work (clock p) (simulateWork busy jobDuration (clock p)),
                           Log WorkFinished, Ack (simulateWork busy jobDuration (clock p))]\<rparr>"
  by (simp add: callback_work_def call_simulateWork_def logPrint_def call_Ack_def Let_def)

lemma lateCheck_run:
  "now - lastJobTime w > metricTimeout w \<Longrightarrow>
   crun (lateCheck now v) (idle w) = Some (idle ((updateMetric now v w)\<lparr>numJobs := Fin 0\<rparr>))"
  by (simp add: lateCheck_def idle_def metricUpdater_read_def metricUpdater_check_def
      updateMetric_def updateMetric_locked_def Gauge_Set_def)

subsection \<open>Decay\<close>

text \<open>
  Claim C1, as the code has it. A tick of the decay loop at \<open>now\<close> changes the state
  exactly when \<open>now - lastJobTime > metricTimeout\<close>, a strict comparison, and the only
  change is that the gauge \<open>numJobs\<close> becomes 0; the fields of \<open>globalState\<close>, among
  them \<open>metricValue\<close>, are as before. Once a tick has set the gauge to 0, what
  \<open>/metrics\<close> shows stays 0 over any further ticks, that is, until \<open>updateMetric\<close>
  runs again.
\<close>

theorem decay_zeroes_gauge:
  "fst (metricUpdater_tick now w) =
     (if now - lastJobTime w > metricTimeout w then w\<lparr>numJobs := Fin 0\<rparr> else w) \<and>
   (now - lastJobTime w > metricTimeout w \<longrightarrow>
      ReadCurrent (fst (metricUpdater_tick now w)) = Fin 0 \<and>
      ReadCurrent (fst (metricUpdater ticks (fst (metricUpdater_tick now w)))) = Fin 0)"
proof -
  have "numJobs (w\<lparr>numJobs := Fin 0\<rparr>) = Fin 0" by simp
  then have "fst (metricUpdater ticks (w\<lparr>numJobs := Fin 0\<rparr>)) = w\<lparr>numJobs := Fin 0\<rparr>"
    by (rule metricUpdater_at_zero)
  then show ?thesis by (simp add: tick_cases ReadCurrent_def)
qed

text \<open>With the default timeout of 120 s and the last job at instant 0: still 9 after a
  tick at exactly 120 s, 0 after the tick at 121 s and after the ticks that follow.\<close>

theorem decay_zeroes_gauge_witness:
  "121 * Second - lastJobTime busyWorld > metricTimeout busyWorld \<and>
   ReadCurrent busyWorld = Fin 9 \<and>
   ReadCurrent (fst (metricUpdater_tick (121 * Second) busyWorld)) = Fin 0 \<and>
   ReadCurrent (fst (metricUpdater [131 * Second, 141 * Second]
      (fst (metricUpdater_tick (121 * Second) busyWorld)))) = Fin 0 \<and>
   fst (metricUpdater_tick (120 * Second) busyWorld) = busyWorld"
proof -
  have stale: "121 * Second - lastJobTime busyWorld > metricTimeout busyWorld"
    by (simp add: busyWorld_eq Second_def)
  have fresh: "\<not> 120 * Second - lastJobTime busyWorld > metricTimeout busyWorld"
    by (simp add: busyWorld_eq Second_def)
  have before: "ReadCurrent busyWorld = Fin 9"
    by (simp add: busyWorld_eq ReadCurrent_def)
  note at121 = decay_zeroes_gauge [of "121 * Second" busyWorld "[131 * Second, 141 * Second]"]
  note at120 = decay_zeroes_gauge [of "120 * Second" busyWorld "[]"]
  from at121 stale have after:
    "ReadCurrent (fst (metricUpdater_tick (121 * Second) busyWorld)) = Fin 0 \<and>
     ReadCurrent (fst (metricUpdater [131 * Second, 141 * Second]
        (fst (metricUpdater_tick (121 * Second) busyWorld)))) = Fin 0"
    by blast
  from at120 fresh have strict: "fst (metricUpdater_tick (120 * Second) busyWorld) = busyWorld"
    by presburger
  from stale before after strict show ?thesis by blast
qed

text \<open>Claim C1 as stated speaks of \<open>currentValue\<close>, the field \<open>metricValue\<close>: the tick
  that finds the state stale leaves it at 9.\<close>

theorem decay_keeps_metricValue_counterexample:
  "121 * Second - lastJobTime busyWorld > metricTimeout busyWorld \<and>
   metricValue (fst (metricUpdater_tick (121 * Second) busyWorld)) = Fin 9 \<and>
   metricValue (fst (metricUpdater_tick (121 * Second) busyWorld)) \<noteq> Fin 0"
  by (simp add: busyWorld_eq tick_cases Second_def)

subsection \<open>Ingest\<close>

text \<open>
  After \<open>updateMetric\<close> has run at \<open>now\<close> with the value \<open>v\<close>, the field
  \<open>metricValue\<close> is \<open>v\<close>, \<open>lastJobTime\<close> is \<open>now\<close>, the gauge is \<open>v\<close>, and a read of
  \<open>/metrics\<close> gives \<open>v\<close>, also after any ticks of the decay loop that sample the state
  after the ingest and fire no later than \<open>metricTimeout\<close> after \<open>now\<close>.
\<close>

lemma ingest_then_ticks:
  "\<forall>t \<in> set ticks. t - now \<le> metricTimeout w \<Longrightarrow>
   metricValue (updateMetric now v w) = v \<and>
   lastJobTime (updateMetric now v w) = now \<and>
   numJobs (updateMetric now v w) = v \<and>
   ReadCurrent (updateMetric now v w) = v \<and>
   ReadCurrent (fst (metricUpdater ticks (updateMetric now v w))) = v"
proof -
  assume fresh: "\<forall>t \<in> set ticks. t - now \<le> metricTimeout w"
  have upd: "updateMetric now v w = w\<lparr>lastJobTime := now, metricValue := v, numJobs := v\<rparr>"
    by (simp add: updateMetric_def updateMetric_locked_def Gauge_Set_def)
  from fresh have "metricUpdater ticks (updateMetric now v w) = (updateMetric now v w, [])"
    by (intro metricUpdater_fresh) (simp add: upd)
  then show ?thesis by (simp add: upd ReadCurrent_def)
qed

text \<open>
  Claim C4 says that after Ingest(v) a read gives exactly \<open>v\<close> as long as no decay
  interval has elapsed since. The code does not keep this when a tick of the decay loop
  is under way: from any state that is stale at \<open>now\<close>, when the decay loop has sampled
  the fields and \<open>updateMetric\<close> then runs completely at \<open>now\<close> with \<open>v\<close>, the state
  after the ingest has \<open>metricValue = v\<close>, \<open>lastJobTime = now\<close> and the gauge at \<open>v\<close>;
  the decay loop then compares the fields it sampled and writes 0, at the same instant
  \<open>now\<close>, so that a read gives 0 although no time has passed since the ingest.
\<close>

theorem ingest_zeroed_by_sampled_tick:
  assumes "now - lastJobTime w > metricTimeout w"
  shows
    "crun [DecayRead, IngestLocked now v, IngestSet] (idle w) =
       Some \<lparr>shared = updateMetric now v w,
             sampled = Some (lastJobTime w, metricTimeout w), publishing = None\<rparr> \<and>
     metricValue (updateMetric now v w) = v \<and>
     lastJobTime (updateMetric now v w) = now \<and>
     ReadCurrent (updateMetric now v w) = v \<and>
     crun (lateCheck now v) (idle w) =
       Some (idle ((updateMetric now v w)\<lparr>numJobs := Fin 0\<rparr>)) \<and>
     ReadCurrent ((updateMetric now v w)\<lparr>numJobs := Fin 0\<rparr>) = Fin 0 \<and>
     lastJobTime ((updateMetric now v w)\<lparr>numJobs := Fin 0\<rparr>) = now \<and>
     metricValue ((updateMetric now v w)\<lparr>numJobs := Fin 0\<rparr>) = v"
proof -
  have first: "crun [DecayRead, IngestLocked now v, IngestSet] (idle w) =
       Some \<lparr>shared = updateMetric now v w,
             sampled = Some (lastJobTime w, metricTimeout w), publishing = None\<rparr>"
    by (simp add: idle_def metricUpdater_read_def updateMetric_def)
  note all = lateCheck_run [OF assms, of v]
  from first all show ?thesis by (simp add: updateMetric_eq ReadCurrent_def)
qed

text \<open>The last job came at instant 0, the timeout is 120 s, and a job reporting 7 arrives
  at 121 s while a tick is under way: 7 is at least 0, no time has passed since the
  ingest, and a read gives 0.\<close>

theorem ingest_zeroed_by_sampled_tick_witness:
  "121 * Second - lastJobTime busyWorld > metricTimeout busyWorld \<and>
   geZero (Fin 7) \<and>
   121 * Second - lastJobTime (updateMetric (121 * Second) (Fin 7) busyWorld)
     \<le> metricTimeout (updateMetric (121 * Second) (Fin 7) busyWorld) \<and>
   ReadCurrent (updateMetric (121 * Second) (Fin 7) busyWorld) = Fin 7 \<and>
   crun (lateCheck (121 * Second) (Fin 7)) (idle busyWorld) =
     Some (idle \<lparr>lastJobTime = 121 * Second, metricValue = Fin 7,
                 metricTimeout = 120 * Second, numJobs = Fin 0\<rparr>) \<and>
   ReadCurrent \<lparr>lastJobTime = 121 * Second, metricValue = Fin 7,
                metricTimeout = 120 * Second, numJobs = Fin 0\<rparr> \<noteq> Fin 7"
proof -
  have stale: "121 * Second - lastJobTime busyWorld > metricTimeout busyWorld"
    by (simp add: busyWorld_eq Second_def)
  have after: "(updateMetric (121 * Second) (Fin 7) busyWorld)\<lparr>numJobs := Fin 0\<rparr> =
      \<lparr>lastJobTime = 121 * Second, metricValue = Fin 7,
       metricTimeout = 120 * Second, numJobs = Fin 0\<rparr>"
    by (simp add: updateMetric_eq busyWorld_eq)
  have fresh: "121 * Second - lastJobTime (updateMetric (121 * Second) (Fin 7) busyWorld)
     \<le> metricTimeout (updateMetric (121 * Second) (Fin 7) busyWorld)"
    by (simp add: updateMetric_eq busyWorld_eq Second_def)
  have differ: "ReadCurrent \<lparr>lastJobTime = 121 * Second, metricValue = Fin 7,
                metricTimeout = 120 * Second, numJobs = Fin 0\<rparr> \<noteq> Fin 7"
    by (simp add: ReadCurrent_def)
  have pos: "geZero (Fin 7)" by simp
  from ingest_zeroed_by_sampled_tick [OF stale, of "Fin 7"]
  have "ReadCurrent (updateMetric (121 * Second) (Fin 7) busyWorld) = Fin 7 \<and>
     crun (lateCheck (121 * Second) (Fin 7)) (idle busyWorld) =
       Some (idle ((updateMetric (121 * Second) (Fin 7) busyWorld)\<lparr>numJobs := Fin 0\<rparr>))"
    by blast
  then have run: "ReadCurrent (updateMetric (121 * Second) (Fin 7) busyWorld) = Fin 7 \<and>
     crun (lateCheck (121 * Second) (Fin 7)) (idle busyWorld) =
       Some (idle \<lparr>lastJobTime = 121 * Second, metricValue = Fin 7,
                   metricTimeout = 120 * Second, numJobs = Fin 0\<rparr>)"
    unfolding after .
  from stale pos fresh run differ show ?thesis by blast
qed

subsection \<open>Repeated ticks\<close>

text \<open>
  Claim C6, as the code has it. No tick of the decay loop changes \<open>lastJobTime\<close>. When
  the gauge is 0, any number of further ticks leaves the whole state as it is: the only
  write, of 0 to the gauge, stores what is there. Every tick that finds the state
  stale prints its log line again, so a run of ticks prints one line per stale tick.
\<close>

theorem decay_idempotent:
  "lastJobTime (fst (metricUpdater ticks w)) = lastJobTime w \<and>
   (numJobs w = Fin 0 \<longrightarrow> fst (metricUpdater ticks w) = w) \<and>
   snd (metricUpdater ticks w) =
     map (\<lambda>t. NoJobsInTimeout) (filter (\<lambda>t. t - lastJobTime w > metricTimeout w) ticks)"
  using metricUpdater_frame [of ticks w] metricUpdater_at_zero [of w ticks]
    metricUpdater_logs [of ticks w]
  by blast

text \<open>Two more ticks on the decayed state: the state is the same, and two lines are logged.\<close>

theorem decay_idempotent_witness:
  "numJobs decayedWorld = Fin 0 \<and>
   lastJobTime (fst (metricUpdater [131 * Second, 141 * Second] decayedWorld)) = 0 \<and>
   fst (metricUpdater [131 * Second, 141 * Second] decayedWorld) = decayedWorld \<and>
   snd (metricUpdater [131 * Second, 141 * Second] decayedWorld) = [NoJobsInTimeout, NoJobsInTimeout]"
proof -
  have zero: "numJobs decayedWorld = Fin 0" by (simp add: decayedWorld_eq)
  have last: "lastJobTime decayedWorld = 0" by (simp add: decayedWorld_eq)
  have stale:
    "filter (\<lambda>t. t - lastJobTime decayedWorld > metricTimeout decayedWorld)
       [131 * Second, 141 * Second] = [131 * Second, 141 * Second]"
    by (simp add: decayedWorld_eq Second_def)
  from decay_idempotent [of "[131 * Second, 141 * Second]" decayedWorld] zero last
  show ?thesis unfolding stale by simp
qed

text \<open>Claim C6 as stated excludes any side effect beyond the write to the gauge: a tick on
  the state whose gauge is 0 already prints the log line again.\<close>

theorem decay_logs_again_counterexample:
  "numJobs decayedWorld = Fin 0 \<and>
   fst (metricUpdater_tick (131 * Second) decayedWorld) = decayedWorld \<and>
   snd (metricUpdater_tick (131 * Second) decayedWorld) = [NoJobsInTimeout] \<and>
   snd (metricUpdater_tick (131 * Second) decayedWorld) \<noteq> []"
  by (simp add: decayedWorld_eq tick_cases Second_def)

subsection \<open>The callback\<close>

text \<open>
  Claim C5. The callback ingests first: when the statements before the work have run
  (lines 101 to 116), at the instant \<open>now\<close> at which the callback was entered,
  \<open>metricValue\<close> and the gauge hold the value taken from the message, \<open>lastJobTime\<close> is
  \<open>now\<close>, no time has passed, and \<open>updateMetric\<close> is the only thing done besides
  logging. The rest of the callback (lines 117 to 123) leaves that state as it is: it
  works, from the instant at which it starts until \<open>simulateWork\<close> returns, and then
  acknowledges the message, at the instant at which the work ended. The callback is
  the one after the other, so that, leaving the log lines aside, it does three things in
  this order: \<open>updateMetric\<close>, the work, the acknowledgement. The work ends no earlier
  than \<open>jobDuration\<close> after it began, and, when no burst takes more than \<open>b\<close>
  nanoseconds, less than \<open>jobDuration\<close> plus \<open>b\<close> plus one sleep of 50 ms after it began.
\<close>

theorem consumer_order:
  "metricValue (pworld (callback_ingest lib jobDuration msg (entering w now))) =
     fst (jobValOf lib msg) \<and>
   lastJobTime (pworld (callback_ingest lib jobDuration msg (entering w now))) = now \<and>
   ReadCurrent (pworld (callback_ingest lib jobDuration msg (entering w now))) =
     fst (jobValOf lib msg) \<and>
   clock (callback_ingest lib jobDuration msg (entering w now)) = now \<and>
   filter (\<lambda>e. \<not> isLog e) (trace (callback_ingest lib jobDuration msg (entering w now))) =
     [UpdateMetric now (fst (jobValOf lib msg))] \<and>
   pworld (callback_work busy jobDuration p) = pworld p \<and>
   clock (callback_work busy jobDuration p) = simulateWork busy jobDuration (clock p) \<and>
   trace (callback_work busy jobDuration p) =
     trace p @ [Work (clock p) (simulateWork busy jobDuration (clock p)), Log WorkFinished,
                Ack (simulateWork busy jobDuration (clock p))] \<and>
   callback lib jobDuration busy msg now w =
     (pworld (callback_work busy jobDuration (callback_ingest lib jobDuration msg (entering w now))),
      trace (callback_work busy jobDuration (callback_ingest lib jobDuration msg (entering w now))),
      clock (callback_work busy jobDuration (callback_ingest lib jobDuration msg (entering w now)))) \<and>
   filter (\<lambda>e. \<not> isLog e) (fst (snd (callback lib jobDuration busy msg now w))) =
     [UpdateMetric now (fst (jobValOf lib msg)),
      Work now (simulateWork busy jobDuration now),
      Ack (simulateWork busy jobDuration now)] \<and>
   metricValue (fst (callback lib jobDuration busy msg now w)) = fst (jobValOf lib msg) \<and>
   lastJobTime (fst (callback lib jobDuration busy msg now w)) = now \<and>
   ReadCurrent (fst (callback lib jobDuration busy msg now w)) = fst (jobValOf lib msg) \<and>
   snd (snd (callback lib jobDuration busy msg now w)) = simulateWork busy jobDuration now \<and>
   now \<le> simulateWork busy jobDuration now \<and>
   jobDuration \<le> simulateWork busy jobDuration now - now \<and>
   ((\<forall>i. busy i \<le> b) \<longrightarrow>
      simulateWork busy jobDuration now \<le> max now (now + jobDuration + int b + 50 * Millisecond - 1))"
proof -
  have before: "metricValue (pworld (callback_ingest lib jobDuration msg (entering w now))) =
       fst (jobValOf lib msg) \<and>
     lastJobTime (pworld (callback_ingest lib jobDuration msg (entering w now))) = now \<and>
     ReadCurrent (pworld (callback_ingest lib jobDuration msg (entering w now))) =
       fst (jobValOf lib msg) \<and>
     clock (callback_ingest lib jobDuration msg (entering w now)) = now"
    unfolding callback_ingest_eq by (simp add: updateMetric_eq ReadCurrent_def)
  have only: "filter (\<lambda>e. \<not> isLog e)
       (trace (callback_ingest lib jobDuration msg (entering w now))) =
     [UpdateMetric now (fst (jobValOf lib msg))]"
    unfolding callback_ingest_eq by (simp add: isLog_def split: option.splits)
  have rest: "pworld (callback_work busy jobDuration p) = pworld p \<and>
     clock (callback_work busy jobDuration p) = simulateWork busy jobDuration (clock p) \<and>
     trace (callback_work busy jobDuration p) =
       trace p @ [Work (clock p) (simulateWork busy jobDuration (clock p)), Log WorkFinished,
                  Ack (simulateWork busy jobDuration (clock p))]"
    unfolding callback_work_eq by simp
  have whole: "callback lib jobDuration busy msg now w =
     (pworld (callback_work busy jobDuration (callback_ingest lib jobDuration msg (entering w now))),
      trace (callback_work busy jobDuration (callback_ingest lib jobDuration msg (entering w now))),
      clock (callback_work busy jobDuration (callback_ingest lib jobDuration msg (entering w now))))"
    by (simp add: callback_def Let_def)
  have order: "filter (\<lambda>e. \<not> isLog e) (fst (snd (callback lib jobDuration busy msg now w))) =
     [UpdateMetric now (fst (jobValOf lib msg)),
      Work now (simulateWork busy jobDuration now),
      Ack (simulateWork busy jobDuration now)]"
    unfolding callback_events by (simp add: isLog_def split: option.splits)
  have final: "metricValue (fst (callback lib jobDuration busy msg now w)) = fst (jobValOf lib msg) \<and>
     lastJobTime (fst (callback lib jobDuration busy msg now w)) = now \<and>
     ReadCurrent (fst (callback lib jobDuration busy msg now w)) = fst (jobValOf lib msg)"
    unfolding callback_world by (simp add: updateMetric_eq ReadCurrent_def)
  have lower: "now \<le> simulateWork busy jobDuration now \<and>
     jobDuration \<le> simulateWork busy jobDuration now - now"
    unfolding simulateWork_def by (rule simulateWork_loop_bounds)
  have upper: "(\<forall>i. busy i \<le> b) \<longrightarrow>
      simulateWork busy jobDuration now \<le> max now (now + jobDuration + int b + 50 * Millisecond - 1)"
    unfolding simulateWork_def using simulateWork_loop_upper [of busy b 0 now jobDuration now]
    by blast
  from before only rest whole order final lower upper callback_returns show ?thesis by blast
qed

text \<open>A job of 100 ms reporting 9, without any overhead, delivered at 200 s to the process
  whose last job came at instant 0: before the work the state holds 9 and 200 s; the
  work takes two rounds of the loop.\<close>

theorem consumer_order_witness:
  "noBusy 0 \<le> 0 \<and> noBusy 1 \<le> 0 \<and>
   metricValue (pworld (callback_ingest rejecting (100 * Millisecond) nineJobs
     (entering decayedWorld (200 * Second)))) = Fin 9 \<and>
   lastJobTime (pworld (callback_ingest rejecting (100 * Millisecond) nineJobs
     (entering decayedWorld (200 * Second)))) = 200 * Second \<and>
   ReadCurrent (pworld (callback_ingest rejecting (100 * Millisecond) nineJobs
     (entering decayedWorld (200 * Second)))) = Fin 9 \<and>
   lastJobTime decayedWorld = 0 \<and> ReadCurrent decayedWorld = Fin 0 \<and>
   filter (\<lambda>e. \<not> isLog e)
     (fst (snd (callback rejecting (100 * Millisecond) noBusy nineJobs 0 busyWorld))) =
     [UpdateMetric 0 (Fin 9), Work 0 (100 * Millisecond), Ack (100 * Millisecond)] \<and>
   simulateWork noBusy (100 * Millisecond) 0 \<le> 150 * Millisecond - 1"
proof -
  have quiet: "\<forall>i. noBusy i \<le> 0" by (simp add: noBusy_def)
  have nine: "fst (jobValOf rejecting nineJobs) = Fin 9"
    by (simp add: jobValOf_def nineJobs_def attribute_def ParseFloat_9)
  have bound: "max 0 (0 + 100 * Millisecond + int 0 + 50 * Millisecond - 1) = 150 * Millisecond - 1"
    by (simp add: Millisecond_def)
  have old: "lastJobTime decayedWorld = 0 \<and> ReadCurrent decayedWorld = Fin 0"
    by (simp add: decayedWorld_eq ReadCurrent_def)
  from consumer_order [of rejecting "100 * Millisecond" nineJobs decayedWorld "200 * Second"]
  have before: "metricValue (pworld (callback_ingest rejecting (100 * Millisecond) nineJobs
       (entering decayedWorld (200 * Second)))) = Fin 9 \<and>
     lastJobTime (pworld (callback_ingest rejecting (100 * Millisecond) nineJobs
       (entering decayedWorld (200 * Second)))) = 200 * Second \<and>
     ReadCurrent (pworld (callback_ingest rejecting (100 * Millisecond) nineJobs
       (entering decayedWorld (200 * Second)))) = Fin 9"
    unfolding nine by blast
  from consumer_order [of rejecting "100 * Millisecond" nineJobs busyWorld 0 noBusy _ 0] quiet
  have after: "filter (\<lambda>e. \<not> isLog e)
       (fst (snd (callback rejecting (100 * Millisecond) noBusy nineJobs 0 busyWorld))) =
       [UpdateMetric 0 (Fin 9), Work 0 (100 * Millisecond), Ack (100 * Millisecond)] \<and>
     simulateWork noBusy (100 * Millisecond) 0 \<le> 150 * Millisecond - 1"
    unfolding nine simulateWork_two_rounds bound by blast
  from before after old quiet show ?thesis by (simp add: noBusy_def)
qed

text \<open>
  Claim C2, as the code has it. When the message has no attribute \<open>numJobs\<close>, or
  \<open>strconv.ParseFloat\<close> returns an error on it, the callback logs the warning, calls
  \<open>updateMetric\<close> with 1, so that \<open>metricValue\<close> and the gauge are 1, works,
  acknowledges and returns; the run goes on with the next step. The callback has no
  other outcome: it has no failing branch.
\<close>

theorem unparsable_attribute_defaults_to_one:
  assumes "Attributes msg ''numJobs'' = None \<or>
           snd (ParseFloat lib (attribute msg ''numJobs'')) \<noteq> None"
  shows "\<exists>e. callback lib jobDuration busy msg now w =
     (updateMetric now (Fin 1) w,
      [Log Received, Log (WarnNumJobs e), UpdateMetric now (Fin 1), Log (SetMetric (Fin 1)),
       Log (StartingWork jobDuration), Work now (simulateWork busy jobDuration now),
       Log WorkFinished, Ack (simulateWork busy jobDuration now)],
      simulateWork busy jobDuration now) \<and>
     metricValue (fst (callback lib jobDuration busy msg now w)) = Fin 1 \<and>
     ReadCurrent (fst (callback lib jobDuration busy msg now w)) = Fin 1 \<and>
     exec lib jobDuration (Deliver msg busy now # rest) w =
       exec lib jobDuration rest (updateMetric now (Fin 1) w)"
proof -
  from assms obtain e where err: "snd (ParseFloat lib (attribute msg ''numJobs'')) = Some e"
    using absent_attribute [of msg lib] by auto
  then have dflt: "jobValOf lib msg = (Fin 1, Some e)" by (rule jobValOf_error)
  note cb = callback_default [OF dflt, of jobDuration busy now w]
  have "metricValue (fst (callback lib jobDuration busy msg now w)) = Fin 1"
    unfolding cb by (simp add: updateMetric_eq)
  moreover have "ReadCurrent (fst (callback lib jobDuration busy msg now w)) = Fin 1"
    unfolding cb by (simp add: updateMetric_eq ReadCurrent_def)
  moreover have "exec lib jobDuration (Deliver msg busy now # rest) w =
       exec lib jobDuration rest (updateMetric now (Fin 1) w)"
    unfolding exec.simps cb by simp
  ultimately show ?thesis using cb by blast
qed

text \<open>A message without attributes.\<close>

theorem unparsable_attribute_defaults_to_one_witness:
  "Attributes bareJob ''numJobs'' = None \<and>
   metricValue (fst (callback rejecting (90 * Second) noBusy bareJob (10 * Second) busyWorld)) = Fin 1 \<and>
   ReadCurrent (fst (callback rejecting (90 * Second) noBusy bareJob (10 * Second) busyWorld)) = Fin 1 \<and>
   exec rejecting (90 * Second) [Deliver bareJob noBusy (10 * Second), Tick (20 * Second)] busyWorld =
     exec rejecting (90 * Second) [Tick (20 * Second)] (updateMetric (10 * Second) (Fin 1) busyWorld)"
proof -
  have absent: "Attributes bareJob ''numJobs'' = None" by (simp add: bareJob_def)
  then have hyp: "Attributes bareJob ''numJobs'' = None \<or>
      snd (ParseFloat rejecting (attribute bareJob ''numJobs'')) \<noteq> None" by (rule disjI1)
  from unparsable_attribute_defaults_to_one
    [OF hyp, of "90 * Second" noBusy "10 * Second" busyWorld "[Tick (20 * Second)]"] absent
  show ?thesis by blast
qed

text \<open>Claim C2 as stated asks for the default on every attribute that is not a
  non-negative number. The attribute \<open>-5\<close> parses without error, to a number below 0,
  and is ingested as it is.\<close>

theorem negative_attribute_counterexample:
  "attribute negativeJob ''numJobs'' = ''-5'' \<and>
   \<not> geZero (fst (ParseFloat rejecting (attribute negativeJob ''numJobs''))) \<and>
   metricValue (fst (callback rejecting (90 * Second) noBusy negativeJob 0 busyWorld)) = Fin (- 5) \<and>
   metricValue (fst (callback rejecting (90 * Second) noBusy negativeJob 0 busyWorld)) \<noteq> Fin 1"
proof -
  have attr: "attribute negativeJob ''numJobs'' = ''-5''"
    by (simp add: attribute_def negativeJob_def)
  have val: "jobValOf rejecting negativeJob = (Fin (- 5), None)"
    by (simp add: jobValOf_def attr ParseFloat_minus5)
  show ?thesis
    unfolding callback_world val attr ParseFloat_minus5 by (simp add: updateMetric_eq)
qed

subsection \<open>The sign of the metric value\<close>

text \<open>
  Claim C7, as the code has it. The state that \<open>main\<close> builds has \<open>metricValue = 0\<close>.
  The callback does not clamp: the value it hands to \<open>updateMetric\<close> is 1 when the parse
  fails and the parsed number, unchanged, when it succeeds. So \<open>metricValue\<close> is at
  least 0 in every state of a run in which each delivered message yields a value that
  is at least 0, from any state in which it is at least 0.
\<close>

theorem metricValue_nonnegative_if_attributes_are:
  "geZero (metricValue (initialWorld env start)) \<and>
   fst (jobValOf lib msg) =
     (if snd (ParseFloat lib (attribute msg ''numJobs'')) \<noteq> None then Fin 1
      else fst (ParseFloat lib (attribute msg ''numJobs''))) \<and>
   (geZero (metricValue w) \<and> (\<forall>st \<in> set steps. ingestsGeZero lib st) \<longrightarrow>
      geZero (metricValue (exec lib jobDuration steps w)))"
proof -
  have "fst (jobValOf lib msg) =
     (if snd (ParseFloat lib (attribute msg ''numJobs'')) \<noteq> None then Fin 1
      else fst (ParseFloat lib (attribute msg ''numJobs'')))"
    by (cases "ParseFloat lib (attribute msg ''numJobs'')") (simp add: jobValOf_def)
  then show ?thesis using exec_metricValue [of w steps lib jobDuration]
    by (simp add: initialWorld_def)
qed

text \<open>A run with a job reporting 9, a tick, and a message without attributes.\<close>

theorem metricValue_nonnegative_if_attributes_are_witness:
  "geZero (metricValue (initialWorld Map.empty 0)) \<and>
   ingestsGeZero rejecting (Deliver nineJobs noBusy 0) \<and>
   ingestsGeZero rejecting (Tick (10 * Second)) \<and>
   ingestsGeZero rejecting (Deliver bareJob noBusy (90 * Second)) \<and>
   geZero (metricValue (exec rejecting (90 * Second)
     [Deliver nineJobs noBusy 0, Tick (10 * Second), Deliver bareJob noBusy (90 * Second)]
     (initialWorld Map.empty 0)))"
proof -
  have nine: "jobValOf rejecting nineJobs = (Fin 9, None)"
    by (simp add: jobValOf_def nineJobs_def attribute_def ParseFloat_9)
  have bare: "jobValOf rejecting bareJob = (Fin 1, Some ErrSyntax)"
    by (simp add: jobValOf_def bareJob_def attribute_def ParseFloat_empty)
  have s1: "ingestsGeZero rejecting (Deliver nineJobs noBusy 0)"
    by (simp add: ingestsGeZero_def nine)
  have s2: "ingestsGeZero rejecting (Tick (10 * Second))"
    by (simp add: ingestsGeZero_def)
  have s3: "ingestsGeZero rejecting (Deliver bareJob noBusy (90 * Second))"
    by (simp add: ingestsGeZero_def bare)
  have all: "\<forall>st \<in> set [Deliver nineJobs noBusy 0, Tick (10 * Second),
      Deliver bareJob noBusy (90 * Second)]. ingestsGeZero rejecting st"
    using s1 s2 s3 by simp
  from metricValue_nonnegative_if_attributes_are
    [of Map.empty 0 rejecting nineJobs "initialWorld Map.empty 0"
      "[Deliver nineJobs noBusy 0, Tick (10 * Second), Deliver bareJob noBusy (90 * Second)]"
      "90 * Second"] all s1 s2 s3
  show ?thesis by blast
qed

text \<open>Claim C7 as stated: one message whose attribute is \<open>-5\<close> leads the fresh process
  to a state with \<open>metricValue = -5\<close>.\<close>

theorem negative_metricValue_counterexample:
  "metricValue (exec rejecting (90 * Second) [Deliver negativeJob noBusy (10 * Second)]
     (initialWorld Map.empty 0)) = Fin (- 5) \<and>
   \<not> geZero (metricValue (exec rejecting (90 * Second) [Deliver negativeJob noBusy (10 * Second)]
     (initialWorld Map.empty 0)))"
proof -
  have val: "jobValOf rejecting negativeJob = (Fin (- 5), None)"
    by (simp add: jobValOf_def attribute_def negativeJob_def ParseFloat_minus5)
  show ?thesis
    unfolding exec.simps callback_world val by (simp add: updateMetric_eq)
qed


subsection \<open>Malformed configuration\<close>

text \<open>
  Claim C10, as the code has it. When \<open>JOB_DURATION_SEC\<close> or \<open>METRIC_TIMEOUT_SEC\<close> is
  set to a string on which \<open>strconv.Atoi\<close> returns an error, the error is dropped and
  the number returned with it is used. The error is a range error exactly when the
  digits after the sign overflow \<open>uint64\<close>, whatever follows them, or the string is a
  well-formed number outside the range of \<open>int\<close>; every other error is a syntax error.
  For a syntax error the number is 0 and the duration is 0 s. For a range error it is
  the largest or the smallest \<open>int\<close>, and the product with \<open>time.Second\<close> wraps around to
  -1 s when the string has no leading minus sign and to 0 s when it has one. With such
  a \<open>METRIC_TIMEOUT_SEC\<close> every tick of the decay loop later than \<open>lastJobTime\<close> sets
  the gauge to 0. The defaults, 90 s and 120 s, are used when the variable is not set.
\<close>

theorem malformed_duration_variable:
  assumes "snd (Atoi s) = Some e"
  shows
    "(e = ErrRange) = (digitsOverflow s \<or> outsideInt s) \<and>
     (e = ErrSyntax) = (\<not> digitsOverflow s \<and> \<not> outsideInt s) \<and>
     (env ''JOB_DURATION_SEC'' = Some s \<longrightarrow>
        jobDurationOf env = (if e = ErrRange \<and> hd s \<noteq> CHR ''-'' then - Second else 0)) \<and>
     (env ''METRIC_TIMEOUT_SEC'' = Some s \<longrightarrow>
        metricTimeoutOf env = (if e = ErrRange \<and> hd s \<noteq> CHR ''-'' then - Second else 0) \<and>
        (metricTimeout w = metricTimeoutOf env \<and> lastJobTime w < now \<longrightarrow>
           ReadCurrent (fst (metricUpdater_tick now w)) = Fin 0)) \<and>
     (env ''JOB_DURATION_SEC'' = None \<longrightarrow> jobDurationOf env = 90 * Second) \<and>
     (env ''METRIC_TIMEOUT_SEC'' = None \<longrightarrow> metricTimeoutOf env = 120 * Second)"
proof -
  have kind1: "(e = ErrRange) = (digitsOverflow s \<or> outsideInt s)"
    using assms unfolding Atoi_error_kind [of s] by (auto split: if_splits)
  have kind2: "(e = ErrSyntax) = (\<not> digitsOverflow s \<and> \<not> outsideInt s)"
    using kind1 by (cases e) simp_all
  note dur = Atoi_error_duration [OF assms]
  have job: "env ''JOB_DURATION_SEC'' = Some s \<longrightarrow>
        jobDurationOf env = (if e = ErrRange \<and> hd s \<noteq> CHR ''-'' then - Second else 0)"
    using dur by (simp add: jobDurationOf_def getEnv_def)
  have timeout: "env ''METRIC_TIMEOUT_SEC'' = Some s \<longrightarrow>
        metricTimeoutOf env = (if e = ErrRange \<and> hd s \<noteq> CHR ''-'' then - Second else 0)"
    using dur by (simp add: metricTimeoutOf_def getEnv_def)
  have tick: "env ''METRIC_TIMEOUT_SEC'' = Some s \<longrightarrow>
        metricTimeout w = metricTimeoutOf env \<and> lastJobTime w < now \<longrightarrow>
           ReadCurrent (fst (metricUpdater_tick now w)) = Fin 0"
    using timeout by (auto simp: tick_cases ReadCurrent_def Second_def split: if_splits)
  have unset1: "env ''JOB_DURATION_SEC'' = None \<longrightarrow> jobDurationOf env = 90 * Second"
    by (simp add: jobDurationOf_def getEnv_def Atoi_90 secondsDuration_def wrap64_def Second_def)
  have unset2: "env ''METRIC_TIMEOUT_SEC'' = None \<longrightarrow> metricTimeoutOf env = 120 * Second"
    by (simp add: metricTimeoutOf_def getEnv_def Atoi_120 secondsDuration_def wrap64_def Second_def)
  from kind1 kind2 job timeout tick unset1 unset2 show ?thesis by blast
qed

text \<open>\<open>METRIC_TIMEOUT_SEC=2m\<close>: a syntax error, the timeout is 0, and the first tick,
  10 s after a job reported 9, sets the gauge to 0. Nineteen nines and a letter: the
  digits are above the largest \<open>int\<close> and do not overflow \<open>uint64\<close>, the error is a
  syntax error and the timeout is 0.\<close>

theorem malformed_duration_variable_witness:
  "snd (Atoi ''2m'') = Some ErrSyntax \<and>
   typoEnv ''METRIC_TIMEOUT_SEC'' = Some ''2m'' \<and>
   typoEnv ''JOB_DURATION_SEC'' = None \<and>
   metricTimeoutOf typoEnv = 0 \<and>
   jobDurationOf typoEnv = 90 * Second \<and>
   metricTimeout (updateMetric 0 (Fin 9) (initialWorld typoEnv 0)) = metricTimeoutOf typoEnv \<and>
   lastJobTime (updateMetric 0 (Fin 9) (initialWorld typoEnv 0)) < 10 * Second \<and>
   ReadCurrent (updateMetric 0 (Fin 9) (initialWorld typoEnv 0)) = Fin 9 \<and>
   ReadCurrent (fst (metricUpdater_tick (10 * Second) (updateMetric 0 (Fin 9) (initialWorld typoEnv 0)))) = Fin 0 \<and>
   snd (Atoi ''9999999999999999999x'') = Some ErrSyntax \<and>
   \<not> digitsOverflow ''9999999999999999999x'' \<and>
   \<not> outsideInt ''9999999999999999999x'' \<and>
   nearOverflowEnv ''METRIC_TIMEOUT_SEC'' = Some ''9999999999999999999x'' \<and>
   metricTimeoutOf nearOverflowEnv = 0"
proof -
  have err: "snd (Atoi ''2m'') = Some ErrSyntax" by (simp add: Atoi_typo)
  have set1: "typoEnv ''METRIC_TIMEOUT_SEC'' = Some ''2m''" by (simp add: typoEnv_def)
  have set2: "typoEnv ''JOB_DURATION_SEC'' = None" by (simp add: typoEnv_def)
  have t: "metricTimeout (updateMetric 0 (Fin 9) (initialWorld typoEnv 0)) = metricTimeoutOf typoEnv"
    by (simp add: updateMetric_eq initialWorld_def)
  have l: "lastJobTime (updateMetric 0 (Fin 9) (initialWorld typoEnv 0)) < 10 * Second"
    by (simp add: updateMetric_eq Second_def)
  have r: "ReadCurrent (updateMetric 0 (Fin 9) (initialWorld typoEnv 0)) = Fin 9"
    by (simp add: updateMetric_eq ReadCurrent_def)
  from malformed_duration_variable
    [OF err, of typoEnv "updateMetric 0 (Fin 9) (initialWorld typoEnv 0)" "10 * Second"]
    set1 set2 t l r err
  have typo: "metricTimeoutOf typoEnv = 0 \<and>
     jobDurationOf typoEnv = 90 * Second \<and>
     ReadCurrent (fst (metricUpdater_tick (10 * Second)
       (updateMetric 0 (Fin 9) (initialWorld typoEnv 0)))) = Fin 0"
    by simp
  have err2: "snd (Atoi ''9999999999999999999x'') = Some ErrSyntax"
    by (simp add: Atoi_near_overflow)
  have set3: "nearOverflowEnv ''METRIC_TIMEOUT_SEC'' = Some ''9999999999999999999x''"
    by (simp add: nearOverflowEnv_def)
  from malformed_duration_variable [OF err2, of nearOverflowEnv] set3
  have near: "\<not> digitsOverflow ''9999999999999999999x'' \<and>
     \<not> outsideInt ''9999999999999999999x'' \<and> metricTimeoutOf nearOverflowEnv = 0"
    by simp
  from err set1 set2 t l r typo err2 set3 near show ?thesis by blast
qed

text \<open>Claim C10 as stated gives 0 s for every string that does not parse: on twenty
  nines followed by a letter \<open>Atoi\<close> returns a range error, and the timeout is -1 s.\<close>

theorem overflowing_duration_variable_counterexample:
  "overflowEnv ''METRIC_TIMEOUT_SEC'' = Some ''99999999999999999999x'' \<and>
   snd (Atoi ''99999999999999999999x'') = Some ErrRange \<and>
   metricTimeoutOf overflowEnv = - Second \<and>
   metricTimeoutOf overflowEnv \<noteq> 0"
  by (simp add: overflowEnv_def metricTimeoutOf_def getEnv_def Atoi_overflow
      secondsDuration_maxInt64 Second_def)

subsection \<open>The decay loop against the consumer\<close>

text \<open>
  Claim C8 says that a tick of the decay loop which sampled a stale \<open>lastJobTime\<close>
  never writes 0 over a value that arrived after the sample. The code compares and
  writes after it has released the read lock. From the state in which the last job came
  at instant 0 and the gauge is 9: the decay loop samples at 121 s, a job reporting 4 is
  ingested and published, then the decay loop writes 0. The state records the job
  (\<open>lastJobTime\<close> is 121 s, \<open>metricValue\<close> is 4) and the gauge is 0, where the same
  steps in the other order leave it at 4; the ticks that follow find the state fresh and
  leave the 0 in place.
\<close>

theorem decay_overwrites_fresh_value:
  "crun raceTrace (idle busyWorld) =
     Some (idle \<lparr>lastJobTime = 121 * Second, metricValue = Fin 4,
                 metricTimeout = 120 * Second, numJobs = Fin 0\<rparr>) \<and>
   crun orderedTrace (idle busyWorld) =
     Some (idle \<lparr>lastJobTime = 121 * Second, metricValue = Fin 4,
                 metricTimeout = 120 * Second, numJobs = Fin 4\<rparr>) \<and>
   ReadCurrent (fst (metricUpdater [131 * Second, 141 * Second]
     \<lparr>lastJobTime = 121 * Second, metricValue = Fin 4,
      metricTimeout = 120 * Second, numJobs = Fin 0\<rparr>)) = Fin 0"
proof -
  have race: "crun raceTrace (idle busyWorld) =
     Some (idle \<lparr>lastJobTime = 121 * Second, metricValue = Fin 4,
                 metricTimeout = 120 * Second, numJobs = Fin 0\<rparr>)"
    by (simp add: raceTrace_def idle_def busyWorld_eq metricUpdater_read_def
        metricUpdater_check_def updateMetric_locked_def Gauge_Set_def Second_def)
  have ordered: "crun orderedTrace (idle busyWorld) =
     Some (idle \<lparr>lastJobTime = 121 * Second, metricValue = Fin 4,
                 metricTimeout = 120 * Second, numJobs = Fin 4\<rparr>)"
    by (simp add: orderedTrace_def idle_def busyWorld_eq metricUpdater_read_def
        metricUpdater_check_def updateMetric_locked_def Gauge_Set_def Second_def)
  have later: "ReadCurrent (fst (metricUpdater [131 * Second, 141 * Second]
     \<lparr>lastJobTime = 121 * Second, metricValue = Fin 4,
      metricTimeout = 120 * Second, numJobs = Fin 0\<rparr>)) = Fin 0"
    unfolding ReadCurrent_def by (subst metricUpdater_at_zero) simp_all
  from race ordered later show ?thesis by blast
qed

end
